theory Spec2Isabelle
  imports Main "HOL-Library.Sublist"
begin

section \<open>JavaScript values, exceptions and promises\<close>

text \<open>
  The front end is TypeScript running on a single-threaded event loop. The values that
  cross the HTTP boundary are untyped at run time (\<^verbatim>\<open>response.data\<close> has type
  \<^verbatim>\<open>any\<close>), so they are modelled as JSON values extended with \<^verbatim>\<open>undefined\<close>.
  Only the zero-ness of a number is ever observed by the code, so numbers are integers.
  An object is an association list; a key is looked up with \<open>map_of\<close>.
\<close>

datatype json =
    JUndefined
  | JNull
  | JBool bool
  | JNum int
  | JStr string
  | JArr "json list"
  | JObj "(string \<times> json) list"

text \<open>JavaScript truthiness, as used by \<^verbatim>\<open>if (v)\<close>, \<^verbatim>\<open>!v\<close>, \<^verbatim>\<open>a && b\<close> and \<^verbatim>\<open>a || b\<close>.\<close>

fun truthy :: "json \<Rightarrow> bool" where
  "truthy JUndefined = False"
| "truthy JNull = False"
| "truthy (JBool b) = b"
| "truthy (JNum n) = (n \<noteq> 0)"
| "truthy (JStr s) = (s \<noteq> [])"
| "truthy (JArr xs) = True"
| "truthy (JObj kvs) = True"

text \<open>
  A caught exception, as far as the handlers look at it: \<^verbatim>\<open>error.message\<close> and, when
  the exception is an HTTP error that carries a response, \<^verbatim>\<open>error.response.data\<close>.
\<close>

record js_error =
  message :: string
  response_data :: "json option"

text \<open>The settled state of an awaited axios promise; \<open>Resolved\<close> carries \<^verbatim>\<open>response.data\<close>.\<close>

datatype 'a outcome = Resolved 'a | Rejected js_error

definition type_error :: "string \<Rightarrow> js_error" where
  "type_error what = \<lparr>message = ''Cannot read properties of '' @ what, response_data = None\<rparr>"

text \<open>
  Property access \<^verbatim>\<open>v.k\<close>: a TypeError on \<^verbatim>\<open>undefined\<close> and \<^verbatim>\<open>null\<close>, the member of
  an object, and \<^verbatim>\<open>undefined\<close> for a missing member. The code reads only the keys
  \<^verbatim>\<open>status\<close>, \<^verbatim>\<open>data\<close>, \<^verbatim>\<open>visualization\<close> and \<^verbatim>\<open>detail\<close>, which no primitive or
  array has.
\<close>

fun get_prop :: "json \<Rightarrow> string \<Rightarrow> js_error + json" where
  "get_prop JUndefined k = Inl (type_error ''undefined'')"
| "get_prop JNull k = Inl (type_error ''null'')"
| "get_prop (JObj kvs) k = Inr (case map_of kvs k of Some v \<Rightarrow> v | None \<Rightarrow> JUndefined)"
| "get_prop v k = Inr JUndefined"

text \<open>Optional chaining \<^verbatim>\<open>v?.k\<close>.\<close>

fun opt_prop :: "json \<Rightarrow> string \<Rightarrow> json" where
  "opt_prop (JObj kvs) k = (case map_of kvs k of Some v \<Rightarrow> v | None \<Rightarrow> JUndefined)"
| "opt_prop v k = JUndefined"

section \<open>Effects\<close>

text \<open>
  Everything a handler does besides computing is an action in its trace: an HTTP request
  handed to axios, a toast, a call of a React state setter. \<open>Await\<close> marks the point
  where an \<^verbatim>\<open>async\<close> function suspends and gives control back to the event loop, so the
  actions between two marks run as one uninterrupted task. Console output is not
  modelled.
\<close>

datatype http_method = GET | POST

datatype response_type = AsJson | AsBlob

datatype vis_type = Band | Manipulation | NoVis

datatype toast_status = Success | Warning | Error

record toast_options =
  title :: string
  description :: json
  status :: toast_status
  duration :: nat
  isClosable :: bool

datatype action =
    Request http_method string "json option" response_type
  | Await
  | Toast toast_options
  | SetVisualizationUrl json
  | SetVisualizationType vis_type
  | SetContextBand string
  | SetBands json
  | SetSelectedBand string
  | SetLoading bool
  | SetImageUrl string
  | SetError string

text \<open>
  A run of a piece of code: the trace of its actions, and either the exception it threw
  or the value it returned.
\<close>

type_synonym 'a proc = "action list \<times> (js_error + 'a)"

definition emit :: "action list \<Rightarrow> unit proc" where
  "emit as = (as, Inr ())"

definition throw :: "js_error \<Rightarrow> 'a proc" where
  "throw e = ([], Inl e)"

definition lift :: "js_error + 'a \<Rightarrow> 'a proc" where
  "lift r = ([], r)"

definition bind_proc :: "'a proc \<Rightarrow> ('a \<Rightarrow> 'b proc) \<Rightarrow> 'b proc" where
  "bind_proc m f =
     (case m of
        (tr, Inl e) \<Rightarrow> (tr, Inl e)
      | (tr, Inr v) \<Rightarrow> (case f v of (tr', r) \<Rightarrow> (tr @ tr', r)))"

text \<open>\<^verbatim>\<open>await axios.get(...)\<close>: the request goes out, the function suspends, and it resumes
  with the response or with the rejection thrown at the \<^verbatim>\<open>await\<close>.\<close>

definition await :: "action \<Rightarrow> 'a outcome \<Rightarrow> 'a proc" where
  "await req oc = ([req, Await], case oc of Resolved v \<Rightarrow> Inr v | Rejected e \<Rightarrow> Inl e)"

definition try_catch :: "'a proc \<Rightarrow> (js_error \<Rightarrow> 'a proc) \<Rightarrow> 'a proc" where
  "try_catch m h =
     (case m of
        (tr, Inl e) \<Rightarrow> (case h e of (tr', r) \<Rightarrow> (tr @ tr', r))
      | (tr, Inr v) \<Rightarrow> (tr, Inr v))"

text \<open>\<^verbatim>\<open>finally\<close> with a block of setter calls, which cannot throw.\<close>

definition try_finally :: "'a proc \<Rightarrow> action list \<Rightarrow> 'a proc" where
  "try_finally m as = (case m of (tr, r) \<Rightarrow> (tr @ as, r))"

definition api :: string where
  "api = ''http://localhost:8000''"

section \<open>Shared visualization state (VisualizationContext)\<close>

record vis_context =
  visualizationUrl :: json
  visualizationType :: vis_type
  selectedBand :: string

text \<open>The three \<^verbatim>\<open>useState\<close> initial values of \<^verbatim>\<open>VisualizationProvider\<close>.\<close>

definition VisualizationProvider :: vis_context where
  "VisualizationProvider =
     \<lparr>visualizationUrl = JStr [], visualizationType = NoVis, selectedBand = []\<rparr>"

fun ctx_apply :: "action \<Rightarrow> vis_context \<Rightarrow> vis_context" where
  "ctx_apply (SetVisualizationUrl u) c = c\<lparr>visualizationUrl := u\<rparr>"
| "ctx_apply (SetVisualizationType t) c = c\<lparr>visualizationType := t\<rparr>"
| "ctx_apply (SetContextBand b) c = c\<lparr>selectedBand := b\<rparr>"
| "ctx_apply a c = c"

text \<open>The cells after the setter calls of a trace have been applied in order. The calls
  of one task are applied together at the next render, so what the panels can observe
  is the result for whole tasks.\<close>

definition run_ctx :: "vis_context \<Rightarrow> action list \<Rightarrow> vis_context" where
  "run_ctx c tr = fold ctx_apply tr c"

fun is_request :: "action \<Rightarrow> bool" where
  "is_request (Request m u b t) = True"
| "is_request a = False"

fun toasts :: "action list \<Rightarrow> toast_options list" where
  "toasts [] = []"
| "toasts (Toast t # tr) = t # toasts tr"
| "toasts (a # tr) = toasts tr"

fun request_urls :: "action list \<Rightarrow> string list" where
  "request_urls [] = []"
| "request_urls (Request m u b t # tr) = u # request_urls tr"
| "request_urls (a # tr) = request_urls tr"

fun is_ctx_write :: "action \<Rightarrow> bool" where
  "is_ctx_write (SetVisualizationUrl u) = True"
| "is_ctx_write (SetVisualizationType t) = True"
| "is_ctx_write (SetContextBand b) = True"
| "is_ctx_write a = False"

section \<open>Band Arithmetic Panel (BandManipulations)\<close>

text \<open>The four responses the backend gives to the requests of one run of
  \<^verbatim>\<open>handleCalculate\<close>; a later one is looked at only if the run gets that far.\<close>

record calc_responses =
  convert1 :: "json outcome"
  convert2 :: "json outcome"
  cogsResponse :: "json outcome"
  response :: "json outcome"

definition error_detail :: "js_error \<Rightarrow> json" where
  "error_detail e = (case response_data e of None \<Rightarrow> JUndefined | Some d \<Rightarrow> opt_prop d ''detail'')"

text \<open>The requests of the panel. Both operand bands and the operation are
  \<^verbatim>\<open>useState\<close> strings of the component.\<close>

definition convert_request :: "string \<Rightarrow> action" where
  "convert_request band = Request POST (api @ ''/api/convert/'' @ band) None AsJson"

definition catalog_request :: action where
  "catalog_request = Request GET (api @ ''/api/bands'') None AsJson"

definition endpoint :: "string \<Rightarrow> string" where
  "endpoint operation =
     (if operation = ''ratio'' then ''/api/manipulate/ratio'' else ''/api/manipulate/difference'')"

definition payload :: "string \<Rightarrow> string \<Rightarrow> string \<Rightarrow> json" where
  "payload operation band1 band2 =
     (if operation = ''ratio''
      then JObj [(''numerator'', JStr band1), (''denominator'', JStr band2)]
      else JObj [(''band1'', JStr band1), (''band2'', JStr band2)])"

definition manipulate_request :: "string \<Rightarrow> string \<Rightarrow> string \<Rightarrow> action" where
  "manipulate_request operation band1 band2 =
     Request POST (api @ endpoint operation) (Some (payload operation band1 band2)) AsJson"

definition completed_toast :: toast_options where
  "completed_toast =
     \<lparr>title = ''Calculation completed'', description = JUndefined,
      status = Success, duration = 2000, isClosable = True\<rparr>"

definition unexpected_format :: js_error where
  "unexpected_format =
     \<lparr>message = ''Manipulation completed but response format is unexpected'',
      response_data = None\<rparr>"

text \<open>The body of the \<^verbatim>\<open>try\<close> block of \<^verbatim>\<open>handleCalculate\<close>.\<close>

definition handleCalculate_try :: "string \<Rightarrow> string \<Rightarrow> string \<Rightarrow> calc_responses \<Rightarrow> unit proc" where
  "handleCalculate_try operation band1 band2 rs =
     bind_proc (await (convert_request band1) (convert1 rs)) (\<lambda>_.
     bind_proc (await (convert_request band2) (convert2 rs)) (\<lambda>_.
     bind_proc (await catalog_request (cogsResponse rs)) (\<lambda>_.
     bind_proc (await (manipulate_request operation band1 band2) (response rs)) (\<lambda>data.
       if truthy data \<and> get_prop data ''status'' = Inr (JStr ''success'') then
         bind_proc (lift (case get_prop data ''data'' of
                            Inl e \<Rightarrow> Inl e
                          | Inr d \<Rightarrow> get_prop d ''visualization'')) (\<lambda>visualizationPath.
           emit [SetVisualizationUrl visualizationPath,
                 SetVisualizationType Manipulation,
                 Toast completed_toast])
       else throw unexpected_format))))"

definition calc_error_toast :: "js_error \<Rightarrow> toast_options" where
  "calc_error_toast error =
     \<lparr>title = ''Error performing calculation'',
      description = (if truthy (error_detail error) then error_detail error
                     else JStr (message error)),
      status = Error, duration = 3000, isClosable = True\<rparr>"

definition handleCalculate :: "string \<Rightarrow> string \<Rightarrow> string \<Rightarrow> calc_responses \<Rightarrow> unit proc" where
  "handleCalculate operation band1 band2 rs =
     (if band1 = [] \<or> band2 = [] then
        emit [Toast \<lparr>title = ''Please select both bands'', description = JUndefined,
                     status = Warning, duration = 3000, isClosable = True\<rparr>]
      else
        bind_proc (emit [SetLoading True]) (\<lambda>_.
          try_finally
            (try_catch (handleCalculate_try operation band1 band2 rs)
               (\<lambda>error. emit [Toast (calc_error_toast error)]))
            [SetLoading False]))"

section \<open>Band Catalog Panel (SpectralBands)\<close>

text \<open>The two \<^verbatim>\<open>useState\<close> cells of the panel, with their initial values. The
  local \<^verbatim>\<open>selectedBand\<close>, which highlights the clicked button, is \<open>highlighted\<close>
  here; the shared cell of the same name keeps the name.\<close>

record bands_panel =
  bands :: json
  highlighted :: string

definition SpectralBands :: bands_panel where
  "SpectralBands = \<lparr>bands = JObj [], highlighted = []\<rparr>"

fun bands_apply :: "action \<Rightarrow> bands_panel \<Rightarrow> bands_panel" where
  "bands_apply (SetBands b) p = p\<lparr>bands := b\<rparr>"
| "bands_apply (SetSelectedBand b) p = p\<lparr>highlighted := b\<rparr>"
| "bands_apply a p = p"

definition run_bands :: "bands_panel \<Rightarrow> action list \<Rightarrow> bands_panel" where
  "run_bands p tr = fold bands_apply tr p"

text \<open>\<^verbatim>\<open>fetchBands\<close>, the body of the mount effect (\<^verbatim>\<open>loadCatalog\<close> in the specification).\<close>

definition fetchBands :: "json outcome \<Rightarrow> unit proc" where
  "fetchBands r =
     try_catch
       (bind_proc (await catalog_request r) (\<lambda>data.
        bind_proc (lift (get_prop data ''data'')) (\<lambda>d.
        emit [SetBands d])))
       (\<lambda>e. emit [Toast \<lparr>title = ''Error fetching bands'', description = JUndefined,
                            status = Error, duration = 3000, isClosable = True\<rparr>])"

text \<open>\<^verbatim>\<open>handleBandSelect\<close> (\<^verbatim>\<open>selectBand\<close> in the specification). The inner
  \<^verbatim>\<open>try\<close> guards two setter calls, which do not throw; its handler only logs.\<close>

definition handleBandSelect :: "string \<Rightarrow> json outcome \<Rightarrow> unit proc" where
  "handleBandSelect bandName r =
     try_catch
       (bind_proc (emit [SetSelectedBand bandName, SetContextBand bandName]) (\<lambda>_.
        bind_proc (await (convert_request bandName) r) (\<lambda>_.
        bind_proc (try_catch
                     (emit [SetVisualizationType Band,
                            SetVisualizationUrl (JStr (''/api/visualize/'' @ bandName))])
                     (\<lambda>visualizationError. emit [])) (\<lambda>_.
        emit [Toast \<lparr>title = ''Band converted successfully'', description = JUndefined,
                     status = Success, duration = 2000, isClosable = True\<rparr>]))))
       (\<lambda>e. emit [Toast \<lparr>title = ''Error converting band'', description = JUndefined,
                            status = Error, duration = 3000, isClosable = True\<rparr>])"

section \<open>Event-loop tasks and reachable shared states\<close>

text \<open>The tasks of a trace: its maximal runs of actions between two suspension points.\<close>

fun tasks_of :: "action list \<Rightarrow> action list list" where
  "tasks_of [] = [[]]"
| "tasks_of (a # tr) =
     (if a = Await then [] # tasks_of tr
      else (case tasks_of tr of [] \<Rightarrow> [[a]] | t # ts \<Rightarrow> (a # t) # ts))"

text \<open>The invariant of the specification's data model: the kind is \<^verbatim>\<open>none\<close> exactly
  when the reference is empty (falsy, as the panels test it).\<close>

definition consistent :: "vis_context \<Rightarrow> bool" where
  "consistent c = ((visualizationType c = NoVis) = (\<not> truthy (visualizationUrl c)))"

text \<open>
  Whether an arithmetic response that passes the status check and whose payload can be
  read yields a non-empty visualization path: the \<^verbatim>\<open>visualization\<close> field is there
  and its value is truthy. A missing field reads as \<^verbatim>\<open>undefined\<close>, which is empty.
\<close>

definition publishes_path :: "json outcome \<Rightarrow> bool" where
  "publishes_path r =
     (case r of
        Rejected e \<Rightarrow> True
      | Resolved data \<Rightarrow>
          if truthy data \<and> get_prop data ''status'' = Inr (JStr ''success'') then
            (case get_prop data ''data'' of
               Inl e \<Rightarrow> True
             | Inr d \<Rightarrow> (case get_prop d ''visualization'' of
                           Inl e \<Rightarrow> True
                         | Inr visualizationPath \<Rightarrow> truthy visualizationPath))
          else True)"

text \<open>
  The shared states at task boundaries. Only the Band Catalog Panel and the Band
  Arithmetic Panel call setters of the shared state. Any task of any run of either
  handler may come next, which covers every interleaving of the handlers on the event
  loop.
\<close>

inductive reachable :: "vis_context \<Rightarrow> bool" where
  start: "reachable VisualizationProvider"
| select: "reachable c \<Longrightarrow> t \<in> set (tasks_of (fst (handleBandSelect bandName r)))
            \<Longrightarrow> reachable (run_ctx c t)"
| calculate: "reachable c \<Longrightarrow> publishes_path (response rs)
            \<Longrightarrow> t \<in> set (tasks_of (fst (handleCalculate operation band1 band2 rs)))
            \<Longrightarrow> reachable (run_ctx c t)"

section \<open>Visualization Display Panel (Visualization)\<close>

text \<open>
  A binary response body, named by its content. \<^verbatim>\<open>URL.createObjectURL\<close> is the browser's:
  it returns a fresh URL of scheme \<^verbatim>\<open>blob:\<close> for the object; the model names the URL
  after the object it stands for.
\<close>

datatype blob = Blob string

fun createObjectURL :: "blob \<Rightarrow> string" where
  "createObjectURL (Blob n) = ''blob:'' @ n"

record vis_panel =
  imageUrl :: string
  loading :: bool
  error :: string

definition Visualization :: vis_panel where
  "Visualization = \<lparr>imageUrl = [], loading = False, error = []\<rparr>"

fun panel_apply :: "action \<Rightarrow> vis_panel \<Rightarrow> vis_panel" where
  "panel_apply (SetImageUrl u) p = p\<lparr>imageUrl := u\<rparr>"
| "panel_apply (SetLoading b) p = p\<lparr>loading := b\<rparr>"
| "panel_apply (SetError e) p = p\<lparr>error := e\<rparr>"
| "panel_apply a p = p"

definition run_panel :: "vis_panel \<Rightarrow> action list \<Rightarrow> vis_panel" where
  "run_panel p tr = fold panel_apply tr p"

text \<open>\<^verbatim>\<open>loadImageFromApi\<close> as a whole run, given how its request settles.\<close>

definition loadImageFromApi :: "string \<Rightarrow> blob outcome \<Rightarrow> unit proc" where
  "loadImageFromApi apiUrl r =
     try_finally
       (try_catch
          (bind_proc (emit [SetLoading True, SetError []]) (\<lambda>_.
           bind_proc (await (Request GET (api @ apiUrl) None AsBlob) r) (\<lambda>data.
           emit [SetImageUrl (createObjectURL data)])))
          (\<lambda>e. emit [SetError ''Error loading visualization'']))
       [SetLoading False]"

text \<open>The same function cut at its one \<^verbatim>\<open>await\<close>: the task that issues the request,
  and the task that runs when the request has settled.\<close>

definition loadImageFromApi_begin :: "string \<Rightarrow> action list" where
  "loadImageFromApi_begin apiUrl =
     [SetLoading True, SetError [], Request GET (api @ apiUrl) None AsBlob]"

definition loadImageFromApi_resume :: "blob outcome \<Rightarrow> action list" where
  "loadImageFromApi_resume r =
     (case r of
        Resolved data \<Rightarrow> [SetImageUrl (createObjectURL data), SetLoading False]
      | Rejected e \<Rightarrow> [SetError ''Error loading visualization'', SetLoading False])"

text \<open>\<^verbatim>\<open>loadVisualization\<close>, which the component defines and never calls.\<close>

definition loadVisualization :: "string \<Rightarrow> blob outcome \<Rightarrow> unit proc" where
  "loadVisualization bandName r =
     try_finally
       (try_catch
          (bind_proc (emit [SetLoading True, SetError []]) (\<lambda>_.
           bind_proc (await (Request GET (api @ ''/api/visualize/'' @ bandName) None AsBlob) r)
             (\<lambda>data.
           emit [SetImageUrl (createObjectURL data)])))
          (\<lambda>e. emit [SetError ''Error loading visualization'']))
       [SetLoading False]"

definition loadVisualization_begin :: "string \<Rightarrow> action list" where
  "loadVisualization_begin bandName =
     [SetLoading True, SetError [], Request GET (api @ ''/api/visualize/'' @ bandName) None AsBlob]"

definition loadVisualization_resume :: "blob outcome \<Rightarrow> action list" where
  "loadVisualization_resume r =
     (case r of
        Resolved data \<Rightarrow> [SetImageUrl (createObjectURL data), SetLoading False]
      | Rejected e \<Rightarrow> [SetError ''Error loading visualization'', SetLoading False])"

text \<open>
  The body of the effect on \<^verbatim>\<open>visualizationUrl\<close>, up to the point where it returns:
  \<^verbatim>\<open>loadImageFromApi\<close> is called and not awaited. \<^verbatim>\<open>startsWith\<close> exists on strings
  only, so a truthy reference that is not a string throws.
\<close>

definition visualization_effect :: "json \<Rightarrow> unit proc" where
  "visualization_effect url =
     (if truthy url then
        (case url of
           JStr s \<Rightarrow>
             if prefix ''blob:'' s then emit [SetImageUrl s]
             else emit (loadImageFromApi_begin s)
         | _ \<Rightarrow> throw \<lparr>message = ''visualizationUrl.startsWith is not a function'',
                        response_data = None\<rparr>)
      else emit [])"

datatype view = Spinner | ErrorText string | Image string | Prompt

definition render :: "vis_panel \<Rightarrow> view" where
  "render p =
     (if loading p then Spinner
      else if error p \<noteq> [] then ErrorText (error p)
      else if imageUrl p \<noteq> [] then Image (imageUrl p)
      else Prompt)"

text \<open>
  The panel on the event loop: its three state cells and the requests that are in
  flight, each with the function that awaits it. An event is one task: the effect fires
  with a value of the shared reference, \<^verbatim>\<open>loadVisualization\<close> is called, or the
  request at some position of the in-flight list settles. A step has no result when the
  task throws past the component or no such request is in flight.
\<close>

datatype loader = LoadImageFromApi | LoadVisualization

record vis_config =
  panel :: vis_panel
  inflight :: "(loader \<times> string) list"

datatype vis_event =
    UrlChanged json
  | LoadVisualizationCalled string
  | Settled nat "blob outcome"

fun vis_step :: "vis_config \<Rightarrow> vis_event \<Rightarrow> vis_config option" where
  "vis_step cfg (UrlChanged u) =
     (case visualization_effect u of
        (tr, Inl e) \<Rightarrow> None
      | (tr, Inr _) \<Rightarrow>
          Some \<lparr>panel = run_panel (panel cfg) tr,
                inflight = inflight cfg @ map (Pair LoadImageFromApi) (request_urls tr)\<rparr>)"
| "vis_step cfg (LoadVisualizationCalled bandName) =
     Some \<lparr>panel = run_panel (panel cfg) (loadVisualization_begin bandName),
           inflight = inflight cfg
             @ map (Pair LoadVisualization) (request_urls (loadVisualization_begin bandName))\<rparr>"
| "vis_step cfg (Settled i r) =
     (if i < length (inflight cfg) then
        Some \<lparr>panel = run_panel (panel cfg)
                 (case fst (inflight cfg ! i) of
                    LoadImageFromApi \<Rightarrow> loadImageFromApi_resume r
                  | LoadVisualization \<Rightarrow> loadVisualization_resume r),
              inflight = take i (inflight cfg) @ drop (Suc i) (inflight cfg)\<rparr>
      else None)"

fun vis_run :: "vis_config \<Rightarrow> vis_event list \<Rightarrow> vis_config option" where
  "vis_run cfg [] = Some cfg"
| "vis_run cfg (ev # evs) =
     (case vis_step cfg ev of None \<Rightarrow> None | Some cfg' \<Rightarrow> vis_run cfg' evs)"

section \<open>Sample backend behaviours\<close>

definition network_error :: js_error where
  "network_error = \<lparr>message = ''Network Error'', response_data = None\<rparr>"

definition http_error :: "json \<Rightarrow> js_error" where
  "http_error body =
     \<lparr>message = ''Request failed with status code 500'', response_data = Some body\<rparr>"

definition band_not_found :: js_error where
  "band_not_found = http_error (JObj [(''detail'', JStr ''Band not found'')])"

definition success_body :: "json \<Rightarrow> json" where
  "success_body d = JObj [(''status'', JStr ''success''), (''data'', d)]"

definition backend :: "json outcome \<Rightarrow> calc_responses" where
  "backend r =
     \<lparr>convert1 = Resolved (JObj []), convert2 = Resolved (JObj []),
      cogsResponse = Resolved (JObj [(''data'', JObj [])]), response = r\<rparr>"

section \<open>Properties\<close>

lemmas proc_defs =
  emit_def throw_def lift_def bind_proc_def await_def try_catch_def try_finally_def

lemmas request_defs =
  convert_request_def catalog_request_def manipulate_request_def endpoint_def payload_def

lemmas sample_defs =
  network_error_def http_error_def band_not_found_def success_body_def backend_def

subsection \<open>Traces and tasks\<close>

lemma run_ctx_no_write: "filter is_ctx_write tr = [] \<Longrightarrow> run_ctx c tr = c"
proof (induction tr arbitrary: c)
  case Nil
  then show ?case by (simp add: run_ctx_def)
next
  case (Cons a tr)
  then show ?case by (cases a) (simp_all add: run_ctx_def split: if_splits)
qed

lemma toasts_append: "toasts (xs @ ys) = toasts xs @ toasts ys"
  by (induction xs rule: toasts.induct) simp_all

lemma tasks_of_nonempty: "tasks_of tr \<noteq> []"
  by (induction tr) (simp_all split: list.splits)

text \<open>A trace without writes to the shared state has no task that writes to it.\<close>

lemma tasks_no_write:
  assumes "filter is_ctx_write tr = []" and "t \<in> set (tasks_of tr)"
  shows "filter is_ctx_write t = []"
  using assms
proof (induction tr arbitrary: t)
  case Nil
  then show ?case by simp
next
  case (Cons a tr)
  have quiet: "filter is_ctx_write tr = []" and a: "\<not> is_ctx_write a"
    using Cons.prems(1) by (simp_all split: if_splits)
  show ?case
  proof (cases "a = Await")
    case True
    then show ?thesis using Cons.prems(2) Cons.IH [OF quiet] by auto
  next
    case False
    obtain t0 ts where split: "tasks_of tr = t0 # ts"
      using tasks_of_nonempty [of tr] by (cases "tasks_of tr") simp_all
    then have "t = a # t0 \<or> t \<in> set ts"
      using Cons.prems(2) False by simp
    then show ?thesis
      using a split Cons.IH [OF quiet, of t0] Cons.IH [OF quiet, of t] by auto
  qed
qed

subsection \<open>The arithmetic sequence\<close>

text \<open>Past the guard, a run is the \<^verbatim>\<open>try\<close> block between the two writes of the
  loading flag, with the error toast after it when the block threw.\<close>

lemma handleCalculate_trace:
  assumes "band1 \<noteq> []" and "band2 \<noteq> []"
  shows "fst (handleCalculate operation band1 band2 rs)
     = SetLoading True # fst (handleCalculate_try operation band1 band2 rs)
       @ (case snd (handleCalculate_try operation band1 band2 rs) of
            Inl e \<Rightarrow> [Toast (calc_error_toast e)]
          | Inr u \<Rightarrow> [])
       @ [SetLoading False]"
  using assms
  by (cases "handleCalculate_try operation band1 band2 rs")
     (simp add: handleCalculate_def proc_defs split: sum.splits)

text \<open>A \<^verbatim>\<open>try\<close> block that completes has gone through all four requests.\<close>

lemma handleCalculate_try_success:
  assumes "snd (handleCalculate_try operation band1 band2 rs) = Inr ()"
  shows "\<exists>visualizationPath.
     fst (handleCalculate_try operation band1 band2 rs)
       = [convert_request band1, Await, convert_request band2, Await,
          catalog_request, Await, manipulate_request operation band1 band2, Await,
          SetVisualizationUrl visualizationPath,
          SetVisualizationType Manipulation,
          Toast completed_toast]"
proof -
  obtain v1 where c1: "convert1 rs = Resolved v1"
    using assms by (cases "convert1 rs") (simp_all add: handleCalculate_try_def proc_defs)
  obtain v2 where c2: "convert2 rs = Resolved v2"
    using assms c1 by (cases "convert2 rs") (simp_all add: handleCalculate_try_def proc_defs)
  obtain v3 where c3: "cogsResponse rs = Resolved v3"
    using assms c1 c2
    by (cases "cogsResponse rs") (simp_all add: handleCalculate_try_def proc_defs)
  obtain data where c4: "response rs = Resolved data"
    using assms c1 c2 c3
    by (cases "response rs") (simp_all add: handleCalculate_try_def proc_defs)
  show ?thesis
    using assms c1 c2 c3 c4
    by (simp add: handleCalculate_try_def proc_defs split: if_splits sum.splits)
qed

text \<open>A \<^verbatim>\<open>try\<close> block that throws has issued the requests up to the step that
  failed, and has done nothing else.\<close>

lemma handleCalculate_try_failure:
  assumes "snd (handleCalculate_try operation band1 band2 rs) = Inl e"
  shows "(\<exists>e1. convert1 rs = Rejected e1 \<and> e = e1
            \<and> fst (handleCalculate_try operation band1 band2 rs)
                = [convert_request band1, Await])
       \<or> (\<exists>v1 e2. convert1 rs = Resolved v1 \<and> convert2 rs = Rejected e2 \<and> e = e2
            \<and> fst (handleCalculate_try operation band1 band2 rs)
                = [convert_request band1, Await, convert_request band2, Await])
       \<or> (\<exists>v1 v2 e3. convert1 rs = Resolved v1 \<and> convert2 rs = Resolved v2
            \<and> cogsResponse rs = Rejected e3 \<and> e = e3
            \<and> fst (handleCalculate_try operation band1 band2 rs)
                = [convert_request band1, Await, convert_request band2, Await,
                   catalog_request, Await])
       \<or> (\<exists>v1 v2 v3. convert1 rs = Resolved v1 \<and> convert2 rs = Resolved v2
            \<and> cogsResponse rs = Resolved v3
            \<and> fst (handleCalculate_try operation band1 band2 rs)
                = [convert_request band1, Await, convert_request band2, Await,
                   catalog_request, Await, manipulate_request operation band1 band2, Await])"
proof (cases "convert1 rs")
  case (Rejected e1)
  then show ?thesis using assms by (simp add: handleCalculate_try_def proc_defs)
next
  case c1: (Resolved v1)
  show ?thesis
  proof (cases "convert2 rs")
    case (Rejected e2)
    then show ?thesis using assms c1 by (simp add: handleCalculate_try_def proc_defs)
  next
    case c2: (Resolved v2)
    show ?thesis
    proof (cases "cogsResponse rs")
      case (Rejected e3)
      then show ?thesis using assms c1 c2 by (simp add: handleCalculate_try_def proc_defs)
    next
      case c3: (Resolved v3)
      show ?thesis
      proof (cases "response rs")
        case (Rejected e4)
        then show ?thesis using assms c1 c2 c3 by (simp add: handleCalculate_try_def proc_defs)
      next
        case (Resolved data)
        then show ?thesis using assms c1 c2 c3
          by (simp add: handleCalculate_try_def proc_defs split: if_splits sum.splits)
      qed
    qed
  qed
qed

lemma handleCalculate_try_failure_quiet:
  assumes "snd (handleCalculate_try operation band1 band2 rs) = Inl e"
  shows "filter is_ctx_write (fst (handleCalculate_try operation band1 band2 rs)) = []
       \<and> toasts (fst (handleCalculate_try operation band1 band2 rs)) = []"
  using handleCalculate_try_failure [OF assms]
  by (auto simp add: request_defs)

text \<open>A response with a status other than \<^verbatim>\<open>success\<close> makes the block throw.\<close>

lemma handleCalculate_try_non_success:
  assumes "convert1 rs = Resolved v1" and "convert2 rs = Resolved v2"
    and "cogsResponse rs = Resolved v3" and "response rs = Resolved data"
    and "\<not> (truthy data \<and> get_prop data ''status'' = Inr (JStr ''success''))"
  shows "snd (handleCalculate_try operation band1 band2 rs) = Inl unexpected_format"
  using assms by (auto simp add: handleCalculate_try_def proc_defs)

text \<open>So does a successful response without the nested \<^verbatim>\<open>data\<close> payload: reading
  \<^verbatim>\<open>visualization\<close> off \<^verbatim>\<open>undefined\<close> or \<^verbatim>\<open>null\<close> is a TypeError.\<close>

lemma handleCalculate_try_missing_data:
  assumes "convert1 rs = Resolved v1" and "convert2 rs = Resolved v2"
    and "cogsResponse rs = Resolved v3" and "response rs = Resolved data"
    and "truthy data" and "get_prop data ''status'' = Inr (JStr ''success'')"
    and "get_prop data ''data'' = Inr d" and "d = JUndefined \<or> d = JNull"
  shows "snd (handleCalculate_try operation band1 band2 rs)
           = Inl (type_error (if d = JUndefined then ''undefined'' else ''null''))"
  using assms by (auto simp add: handleCalculate_try_def proc_defs)

subsection \<open>Shared state across tasks\<close>

lemma handleBandSelect_preserves:
  assumes "consistent c" and "t \<in> set (tasks_of (fst (handleBandSelect bandName r)))"
  shows "consistent (run_ctx c t)"
  using assms
  by (cases r)
     (auto simp add: handleBandSelect_def proc_defs convert_request_def consistent_def run_ctx_def)

lemma handleCalculate_try_published:
  assumes "snd (handleCalculate_try operation band1 band2 rs) = Inr ()"
    and "publishes_path (response rs)"
    and "fst (handleCalculate_try operation band1 band2 rs)
       = [convert_request band1, Await, convert_request band2, Await,
          catalog_request, Await, manipulate_request operation band1 band2, Await,
          SetVisualizationUrl p, SetVisualizationType Manipulation, Toast completed_toast]"
  shows "truthy p"
proof -
  obtain v1 where c1: "convert1 rs = Resolved v1"
    using assms(1) by (cases "convert1 rs") (simp_all add: handleCalculate_try_def proc_defs)
  obtain v2 where c2: "convert2 rs = Resolved v2"
    using assms(1) c1 by (cases "convert2 rs") (simp_all add: handleCalculate_try_def proc_defs)
  obtain v3 where c3: "cogsResponse rs = Resolved v3"
    using assms(1) c1 c2
    by (cases "cogsResponse rs") (simp_all add: handleCalculate_try_def proc_defs)
  obtain data where c4: "response rs = Resolved data"
    using assms(1) c1 c2 c3
    by (cases "response rs") (simp_all add: handleCalculate_try_def proc_defs)
  show ?thesis
    using assms c1 c2 c3 c4
    by (simp add: handleCalculate_try_def proc_defs publishes_path_def
        split: if_splits sum.splits)
qed

lemma handleCalculate_preserves:
  assumes "consistent c" and "publishes_path (response rs)"
    and "t \<in> set (tasks_of (fst (handleCalculate operation band1 band2 rs)))"
  shows "consistent (run_ctx c t)"
proof (cases "band1 = [] \<or> band2 = []")
  case True
  then have "filter is_ctx_write (fst (handleCalculate operation band1 band2 rs)) = []"
    by (simp add: handleCalculate_def emit_def)
  then show ?thesis
    using assms(1,3) tasks_no_write run_ctx_no_write by metis
next
  case False
  then have b: "band1 \<noteq> []" "band2 \<noteq> []" by simp_all
  show ?thesis
  proof (cases "snd (handleCalculate_try operation band1 band2 rs)")
    case (Inl e)
    have "filter is_ctx_write (fst (handleCalculate operation band1 band2 rs)) = []"
      using handleCalculate_trace [OF b, of operation rs] Inl
        handleCalculate_try_failure_quiet [OF Inl] by simp
    then show ?thesis
      using assms(1,3) tasks_no_write run_ctx_no_write by metis
  next
    case (Inr u)
    then have ok: "snd (handleCalculate_try operation band1 band2 rs) = Inr ()" by simp
    obtain p where tr: "fst (handleCalculate_try operation band1 band2 rs)
       = [convert_request band1, Await, convert_request band2, Await,
          catalog_request, Await, manipulate_request operation band1 band2, Await,
          SetVisualizationUrl p, SetVisualizationType Manipulation, Toast completed_toast]"
      using handleCalculate_try_success [OF ok] by auto
    have p: "truthy p"
      using handleCalculate_try_published [OF ok assms(2) tr] .
    have "tasks_of (fst (handleCalculate operation band1 band2 rs))
        = [[SetLoading True, convert_request band1], [convert_request band2], [catalog_request],
           [manipulate_request operation band1 band2],
           [SetVisualizationUrl p, SetVisualizationType Manipulation, Toast completed_toast,
            SetLoading False]]"
      using handleCalculate_trace [OF b, of operation rs] ok tr
      by (simp add: request_defs)
    then show ?thesis
      using assms(1,3) p by (auto simp add: consistent_def run_ctx_def request_defs)
  qed
qed

text \<open>
  At every task boundary, under any interleaving of the tasks of the two handlers, the
  kind is \<^verbatim>\<open>none\<close> exactly when the reference is empty, as long as no arithmetic
  response that passes the status check yields an empty or missing path.
\<close>

lemma reachable_consistent:
  assumes "reachable c"
  shows "consistent c"
  using assms
proof (induction rule: reachable.induct)
  case start
  show ?case by (simp add: consistent_def VisualizationProvider_def)
next
  case (select c t bandName r)
  then show ?case using handleBandSelect_preserves by blast
next
  case (calculate c rs t operation band1 band2)
  then show ?case using handleCalculate_preserves by blast
qed

subsection \<open>The display panel\<close>

lemma loadImageFromApi_cut:
  "fst (loadImageFromApi apiUrl r)
     = loadImageFromApi_begin apiUrl @ Await # loadImageFromApi_resume r"
  by (cases r)
     (simp_all add: loadImageFromApi_def loadImageFromApi_begin_def loadImageFromApi_resume_def
        proc_defs)

lemma loadVisualization_cut:
  "fst (loadVisualization bandName r)
     = loadVisualization_begin bandName @ Await # loadVisualization_resume r"
  by (cases r)
     (simp_all add: loadVisualization_def loadVisualization_begin_def
        loadVisualization_resume_def proc_defs)

lemma createObjectURL_nonempty: "createObjectURL b \<noteq> []"
  by (cases b) simp

lemma createObjectURL_blob: "prefix ''blob:'' (createObjectURL b)"
  by (cases b) simp

lemma vis_step_keeps_image:
  assumes "imageUrl (panel cfg) \<noteq> []" and "vis_step cfg ev = Some cfg'"
  shows "imageUrl (panel cfg') \<noteq> []"
proof (cases ev)
  case (UrlChanged u)
  then show ?thesis
    using assms
    by (cases u)
       (auto simp add: visualization_effect_def proc_defs loadImageFromApi_begin_def
          run_panel_def split: if_splits)
next
  case (LoadVisualizationCalled bandName)
  then show ?thesis
    using assms by (auto simp add: loadVisualization_begin_def run_panel_def)
next
  case (Settled i r)
  then show ?thesis
    using assms
    by (cases r; cases "fst (inflight cfg ! i)")
       (auto simp add: loadImageFromApi_resume_def loadVisualization_resume_def run_panel_def
          createObjectURL_nonempty split: if_splits)
qed

subsection \<open>Claims\<close>

text \<open>
  C1, as the code has it. When the conversion request of \<^verbatim>\<open>handleBandSelect\<close> is
  rejected, the shared visualization reference and kind are as before the call, the
  shared selected band is the band that was clicked (it is recorded before the request
  goes out), and one toast of status error, titled ``Error converting band'', is shown.
\<close>

theorem handleBandSelect_failed_conversion:
  "visualizationUrl (run_ctx c (fst (handleBandSelect bandName (Rejected e))))
     = visualizationUrl c
   \<and> visualizationType (run_ctx c (fst (handleBandSelect bandName (Rejected e))))
     = visualizationType c
   \<and> selectedBand (run_ctx c (fst (handleBandSelect bandName (Rejected e)))) = bandName
   \<and> toasts (fst (handleBandSelect bandName (Rejected e)))
       = [\<lparr>title = ''Error converting band'', description = JUndefined,
           status = Error, duration = 3000, isClosable = True\<rparr>]"
  by (simp add: handleBandSelect_def proc_defs run_ctx_def convert_request_def)

text \<open>
  C1 as stated fails on the selected band: from the initial shared state, a click on
  \<^verbatim>\<open>IMG_VIS\<close> whose conversion is rejected leaves \<^verbatim>\<open>IMG_VIS\<close> selected.
\<close>

theorem handleBandSelect_failed_conversion_counterexample:
  "selectedBand (run_ctx VisualizationProvider
       (fst (handleBandSelect ''IMG_VIS'' (Rejected network_error))))
     \<noteq> selectedBand VisualizationProvider"
  by (simp add: handleBandSelect_def proc_defs run_ctx_def VisualizationProvider_def
      convert_request_def)

text \<open>
  C2 at an arithmetic response \<^verbatim>\<open>{status: "success", data: {}}\<close>, starting from the
  initial shared state, where the invariant holds. The last task of the run calls
  \<^verbatim>\<open>setVisualizationUrl(undefined)\<close> and \<^verbatim>\<open>setVisualizationType('manipulation')\<close>, so
  at the end of that task the kind is \<^verbatim>\<open>manipulation\<close> and the reference is empty:
  the invariant is broken at a task boundary.
\<close>

theorem handleCalculate_breaks_invariant:
  "tasks_of (fst (handleCalculate ''ratio'' ''IMG_VIS'' ''IMG_SWIR''
       (backend (Resolved (success_body (JObj []))))))
     = [[SetLoading True, convert_request ''IMG_VIS''], [convert_request ''IMG_SWIR''],
        [catalog_request], [manipulate_request ''ratio'' ''IMG_VIS'' ''IMG_SWIR''],
        [SetVisualizationUrl JUndefined, SetVisualizationType Manipulation,
         Toast completed_toast, SetLoading False]]
   \<and> consistent VisualizationProvider
   \<and> visualizationType (run_ctx VisualizationProvider
        [SetVisualizationUrl JUndefined, SetVisualizationType Manipulation,
         Toast completed_toast, SetLoading False]) = Manipulation
   \<and> \<not> truthy (visualizationUrl (run_ctx VisualizationProvider
        [SetVisualizationUrl JUndefined, SetVisualizationType Manipulation,
         Toast completed_toast, SetLoading False]))
   \<and> \<not> consistent (run_ctx VisualizationProvider
        (fst (handleCalculate ''ratio'' ''IMG_VIS'' ''IMG_SWIR''
           (backend (Resolved (success_body (JObj [])))))))"
  by (simp add: handleCalculate_def handleCalculate_try_def proc_defs sample_defs run_ctx_def
      VisualizationProvider_def request_defs completed_toast_def consistent_def)

text \<open>
  C3. When a ratio computation of operands \<open>band1\<close> and \<open>band2\<close> succeeds (its
  \<^verbatim>\<open>try\<close> block completes), the requests of the run are, in this order, the convert
  call for \<open>band1\<close>, the convert call for \<open>band2\<close>, one read of the catalog, and the
  call of the ratio endpoint with body \<^verbatim>\<open>{numerator: band1, denominator: band2}\<close>;
  the ratio endpoint is called exactly once.
\<close>

theorem handleCalculate_ratio_requests:
  assumes "band1 \<noteq> []" and "band2 \<noteq> []"
    and "snd (handleCalculate_try ''ratio'' band1 band2 rs) = Inr ()"
  shows "filter is_request (fst (handleCalculate ''ratio'' band1 band2 rs))
           = [Request POST (api @ ''/api/convert/'' @ band1) None AsJson,
              Request POST (api @ ''/api/convert/'' @ band2) None AsJson,
              Request GET (api @ ''/api/bands'') None AsJson,
              Request POST (api @ ''/api/manipulate/ratio'')
                (Some (JObj [(''numerator'', JStr band1), (''denominator'', JStr band2)])) AsJson]
       \<and> count_list (request_urls (fst (handleCalculate ''ratio'' band1 band2 rs)))
           (api @ ''/api/manipulate/ratio'') = 1"
proof -
  obtain p where tr: "fst (handleCalculate_try ''ratio'' band1 band2 rs)
       = [convert_request band1, Await, convert_request band2, Await,
          catalog_request, Await, manipulate_request ''ratio'' band1 band2, Await,
          SetVisualizationUrl p, SetVisualizationType Manipulation, Toast completed_toast]"
    using handleCalculate_try_success [OF assms(3)] by auto
  have whole: "fst (handleCalculate ''ratio'' band1 band2 rs)
      = SetLoading True # fst (handleCalculate_try ''ratio'' band1 band2 rs) @ [SetLoading False]"
    using handleCalculate_trace [OF assms(1,2), of "''ratio''" rs] assms(3) by simp
  show ?thesis
    unfolding whole tr by (simp add: request_defs api_def)
qed

theorem handleCalculate_ratio_requests_witness:
  "''IMG_VIS'' \<noteq> [] \<and> ''IMG_SWIR'' \<noteq> []
   \<and> snd (handleCalculate_try ''ratio'' ''IMG_VIS'' ''IMG_SWIR''
        (backend (Resolved (success_body (JObj [(''visualization'', JStr ''/api/result/1'')])))))
       = Inr ()
   \<and> request_urls (fst (handleCalculate ''ratio'' ''IMG_VIS'' ''IMG_SWIR''
        (backend (Resolved (success_body (JObj [(''visualization'', JStr ''/api/result/1'')]))))))
       = [''http://localhost:8000/api/convert/IMG_VIS'',
          ''http://localhost:8000/api/convert/IMG_SWIR'',
          ''http://localhost:8000/api/bands'',
          ''http://localhost:8000/api/manipulate/ratio'']"
proof -
  let ?rs = "backend (Resolved (success_body (JObj [(''visualization'', JStr ''/api/result/1'')])))"
  have h1: "''IMG_VIS'' \<noteq> []" and h2: "''IMG_SWIR'' \<noteq> []"
    by simp_all
  have h3: "snd (handleCalculate_try ''ratio'' ''IMG_VIS'' ''IMG_SWIR'' ?rs) = Inr ()"
    by (simp add: handleCalculate_try_def proc_defs sample_defs)
  have "request_urls (filter is_request (fst (handleCalculate ''ratio'' ''IMG_VIS'' ''IMG_SWIR'' ?rs)))
      = [''http://localhost:8000/api/convert/IMG_VIS'',
          ''http://localhost:8000/api/convert/IMG_SWIR'',
          ''http://localhost:8000/api/bands'',
          ''http://localhost:8000/api/manipulate/ratio'']"
    using handleCalculate_ratio_requests [OF h1 h2 h3] by (simp add: api_def)
  moreover have "request_urls (filter is_request tr) = request_urls tr" for tr
    by (induction tr rule: request_urls.induct) simp_all
  ultimately show ?thesis
    using h1 h2 h3 by simp
qed

text \<open>
  C4. When the arithmetic action is invoked with at least one of the two operand band
  identifiers unset (the empty string), the whole run consists of one toast of status
  warning: no network request is issued, exactly one notification is produced and it is
  a warning, no setter of the shared state is called, and the shared state is as before.
\<close>

theorem handleCalculate_unset_operand:
  assumes "band1 = [] \<or> band2 = []"
  shows "filter is_request (fst (handleCalculate operation band1 band2 rs)) = []
       \<and> map status (toasts (fst (handleCalculate operation band1 band2 rs))) = [Warning]
       \<and> filter is_ctx_write (fst (handleCalculate operation band1 band2 rs)) = []
       \<and> run_ctx c (fst (handleCalculate operation band1 band2 rs)) = c"
  using assms by (simp add: handleCalculate_def emit_def run_ctx_def)

theorem handleCalculate_unset_operand_witness:
  "([] = [] \<or> ''IMG_VIS'' = [])
   \<and> filter is_request (fst (handleCalculate ''ratio'' [] ''IMG_VIS''
         \<lparr>convert1 = Resolved JNull, convert2 = Resolved JNull,
          cogsResponse = Resolved JNull, response = Resolved JNull\<rparr>)) = []
   \<and> map status (toasts (fst (handleCalculate ''ratio'' [] ''IMG_VIS''
         \<lparr>convert1 = Resolved JNull, convert2 = Resolved JNull,
          cogsResponse = Resolved JNull, response = Resolved JNull\<rparr>))) = [Warning]
   \<and> filter is_ctx_write (fst (handleCalculate ''ratio'' [] ''IMG_VIS''
         \<lparr>convert1 = Resolved JNull, convert2 = Resolved JNull,
          cogsResponse = Resolved JNull, response = Resolved JNull\<rparr>)) = []
   \<and> run_ctx VisualizationProvider (fst (handleCalculate ''ratio'' [] ''IMG_VIS''
         \<lparr>convert1 = Resolved JNull, convert2 = Resolved JNull,
          cogsResponse = Resolved JNull, response = Resolved JNull\<rparr>))
       = VisualizationProvider"
  using handleCalculate_unset_operand [of "[]" "''IMG_VIS''" "''ratio''"
      "\<lparr>convert1 = Resolved JNull, convert2 = Resolved JNull,
        cogsResponse = Resolved JNull, response = Resolved JNull\<rparr>" VisualizationProvider]
  by simp

text \<open>
  C5. Take a run of the arithmetic sequence, past the guard, whose \<^verbatim>\<open>try\<close> block throws
  \<open>e\<close>: a rejected request at any step, the error thrown for a status other than
  \<^verbatim>\<open>success\<close>, or a TypeError while reading the path. Then the run is the block up
  to the throw followed by one error toast and the reset of the loading flag. The
  requests issued are an initial part of the sequence convert, convert, catalog,
  manipulate that stops at the request that was rejected, so no later step runs. The
  toast has status error, and its description is \<^verbatim>\<open>error.response?.data?.detail\<close> when
  the backend supplied a truthy one and \<^verbatim>\<open>error.message\<close> otherwise. No setter of the
  shared state is called, and the shared state is as before.
\<close>

theorem handleCalculate_failure:
  assumes "band1 \<noteq> []" and "band2 \<noteq> []"
    and "snd (handleCalculate_try operation band1 band2 rs) = Inl e"
  shows "fst (handleCalculate operation band1 band2 rs)
           = SetLoading True # fst (handleCalculate_try operation band1 band2 rs)
             @ [Toast (calc_error_toast e), SetLoading False]
       \<and> prefix (filter is_request (fst (handleCalculate operation band1 band2 rs)))
           [convert_request band1, convert_request band2, catalog_request,
            manipulate_request operation band1 band2]
       \<and> (\<forall>e1. convert1 rs = Rejected e1 \<longrightarrow>
             filter is_request (fst (handleCalculate operation band1 band2 rs))
               = [convert_request band1])
       \<and> (\<forall>v1 e2. convert1 rs = Resolved v1 \<and> convert2 rs = Rejected e2 \<longrightarrow>
             filter is_request (fst (handleCalculate operation band1 band2 rs))
               = [convert_request band1, convert_request band2])
       \<and> (\<forall>v1 v2 e3. convert1 rs = Resolved v1 \<and> convert2 rs = Resolved v2
               \<and> cogsResponse rs = Rejected e3 \<longrightarrow>
             filter is_request (fst (handleCalculate operation band1 band2 rs))
               = [convert_request band1, convert_request band2, catalog_request])
       \<and> (\<forall>v1 v2 v3. convert1 rs = Resolved v1 \<and> convert2 rs = Resolved v2
               \<and> cogsResponse rs = Resolved v3 \<longrightarrow>
             filter is_request (fst (handleCalculate operation band1 band2 rs))
               = [convert_request band1, convert_request band2, catalog_request,
                  manipulate_request operation band1 band2])
       \<and> toasts (fst (handleCalculate operation band1 band2 rs)) = [calc_error_toast e]
       \<and> status (calc_error_toast e) = Error
       \<and> description (calc_error_toast e)
           = (if truthy (error_detail e) then error_detail e else JStr (message e))
       \<and> filter is_ctx_write (fst (handleCalculate operation band1 band2 rs)) = []
       \<and> run_ctx c (fst (handleCalculate operation band1 band2 rs)) = c"
proof -
  let ?body = "fst (handleCalculate_try operation band1 band2 rs)"
  let ?tr = "fst (handleCalculate operation band1 band2 rs)"
  have whole: "?tr = SetLoading True # ?body @ [Toast (calc_error_toast e), SetLoading False]"
    using handleCalculate_trace [OF assms(1,2), of operation rs] assms(3) by simp
  have quiet: "filter is_ctx_write ?body = []" "toasts ?body = []"
    using handleCalculate_try_failure_quiet [OF assms(3)] by simp_all
  have steps: "prefix (filter is_request ?tr)
      [convert_request band1, convert_request band2, catalog_request,
       manipulate_request operation band1 band2]"
    using handleCalculate_try_failure [OF assms(3)] unfolding whole
    by (auto simp add: request_defs)
  have r1: "\<forall>e1. convert1 rs = Rejected e1 \<longrightarrow>
      filter is_request ?tr = [convert_request band1]"
    using handleCalculate_try_failure [OF assms(3)] unfolding whole
    by (auto simp add: request_defs)
  have r2: "\<forall>v1 e2. convert1 rs = Resolved v1 \<and> convert2 rs = Rejected e2 \<longrightarrow>
      filter is_request ?tr = [convert_request band1, convert_request band2]"
    using handleCalculate_try_failure [OF assms(3)] unfolding whole
    by (auto simp add: request_defs)
  have r3: "\<forall>v1 v2 e3. convert1 rs = Resolved v1 \<and> convert2 rs = Resolved v2
               \<and> cogsResponse rs = Rejected e3 \<longrightarrow>
      filter is_request ?tr = [convert_request band1, convert_request band2, catalog_request]"
    using handleCalculate_try_failure [OF assms(3)] unfolding whole
    by (auto simp add: request_defs)
  have r4: "\<forall>v1 v2 v3. convert1 rs = Resolved v1 \<and> convert2 rs = Resolved v2
               \<and> cogsResponse rs = Resolved v3 \<longrightarrow>
      filter is_request ?tr = [convert_request band1, convert_request band2, catalog_request,
                               manipulate_request operation band1 band2]"
    using handleCalculate_try_failure [OF assms(3)] unfolding whole
    by (auto simp add: request_defs)
  have t: "toasts ?tr = [calc_error_toast e]"
    unfolding whole using quiet(2) by (simp add: toasts_append)
  have w: "filter is_ctx_write ?tr = []"
    unfolding whole using quiet(1) by simp
  have d: "status (calc_error_toast e) = Error"
    "description (calc_error_toast e)
           = (if truthy (error_detail e) then error_detail e else JStr (message e))"
    by (simp_all add: calc_error_toast_def)
  show ?thesis
    using whole steps r1 r2 r3 r4 t w d run_ctx_no_write [OF w, of c] by blast
qed

theorem handleCalculate_failure_witness:
  "''IMG_VIS'' \<noteq> [] \<and> ''IMG_SWIR'' \<noteq> []
   \<and> snd (handleCalculate_try ''ratio'' ''IMG_VIS'' ''IMG_SWIR''
        ((backend (Resolved JNull))\<lparr>convert2 := Rejected band_not_found\<rparr>)) = Inl band_not_found
   \<and> filter is_request (fst (handleCalculate ''ratio'' ''IMG_VIS'' ''IMG_SWIR''
        ((backend (Resolved JNull))\<lparr>convert2 := Rejected band_not_found\<rparr>)))
       = [convert_request ''IMG_VIS'', convert_request ''IMG_SWIR'']
   \<and> toasts (fst (handleCalculate ''ratio'' ''IMG_VIS'' ''IMG_SWIR''
        ((backend (Resolved JNull))\<lparr>convert2 := Rejected band_not_found\<rparr>)))
       = [\<lparr>title = ''Error performing calculation'', description = JStr ''Band not found'',
           status = Error, duration = 3000, isClosable = True\<rparr>]
   \<and> run_ctx VisualizationProvider (fst (handleCalculate ''ratio'' ''IMG_VIS'' ''IMG_SWIR''
        ((backend (Resolved JNull))\<lparr>convert2 := Rejected band_not_found\<rparr>)))
       = VisualizationProvider
   \<and> snd (handleCalculate_try ''difference'' ''IMG_VIS'' ''IMG_SWIR''
        (backend (Resolved (JObj [(''status'', JStr ''failed'')])))) = Inl unexpected_format
   \<and> filter is_request (fst (handleCalculate ''difference'' ''IMG_VIS'' ''IMG_SWIR''
        (backend (Resolved (JObj [(''status'', JStr ''failed'')])))))
       = [convert_request ''IMG_VIS'', convert_request ''IMG_SWIR'', catalog_request,
          manipulate_request ''difference'' ''IMG_VIS'' ''IMG_SWIR'']
   \<and> toasts (fst (handleCalculate ''difference'' ''IMG_VIS'' ''IMG_SWIR''
        (backend (Resolved (JObj [(''status'', JStr ''failed'')])))))
       = [\<lparr>title = ''Error performing calculation'',
           description = JStr ''Manipulation completed but response format is unexpected'',
           status = Error, duration = 3000, isClosable = True\<rparr>]
   \<and> run_ctx VisualizationProvider (fst (handleCalculate ''difference'' ''IMG_VIS'' ''IMG_SWIR''
        (backend (Resolved (JObj [(''status'', JStr ''failed'')])))))
       = VisualizationProvider"
proof -
  let ?rs = "(backend (Resolved JNull))\<lparr>convert2 := Rejected band_not_found\<rparr>"
  let ?rs' = "backend (Resolved (JObj [(''status'', JStr ''failed'')]))"
  have h1: "''IMG_VIS'' \<noteq> []" and h2: "''IMG_SWIR'' \<noteq> []"
    by simp_all
  have h3: "snd (handleCalculate_try ''ratio'' ''IMG_VIS'' ''IMG_SWIR'' ?rs) = Inl band_not_found"
    by (simp add: handleCalculate_try_def proc_defs backend_def)
  have h3': "snd (handleCalculate_try ''difference'' ''IMG_VIS'' ''IMG_SWIR'' ?rs')
      = Inl unexpected_format"
    by (simp add: handleCalculate_try_def proc_defs backend_def)
  note run = handleCalculate_failure [OF h1 h2 h3, of VisualizationProvider]
  note run' = handleCalculate_failure [OF h1 h2 h3', of VisualizationProvider]
  have steps: "convert1 ?rs = Resolved (JObj []) \<and> convert2 ?rs = Rejected band_not_found"
    by (simp add: backend_def)
  have steps': "convert1 ?rs' = Resolved (JObj []) \<and> convert2 ?rs' = Resolved (JObj [])
      \<and> cogsResponse ?rs' = Resolved (JObj [(''data'', JObj [])])"
    by (simp add: backend_def)
  have requests: "filter is_request (fst (handleCalculate ''ratio'' ''IMG_VIS'' ''IMG_SWIR'' ?rs))
      = [convert_request ''IMG_VIS'', convert_request ''IMG_SWIR'']"
    using run steps by blast
  have requests': "filter is_request
        (fst (handleCalculate ''difference'' ''IMG_VIS'' ''IMG_SWIR'' ?rs'))
      = [convert_request ''IMG_VIS'', convert_request ''IMG_SWIR'', catalog_request,
         manipulate_request ''difference'' ''IMG_VIS'' ''IMG_SWIR'']"
    using run' steps' by blast
  have shown: "toasts (fst (handleCalculate ''ratio'' ''IMG_VIS'' ''IMG_SWIR'' ?rs))
      = [calc_error_toast band_not_found]"
    using run by blast
  have shown': "toasts (fst (handleCalculate ''difference'' ''IMG_VIS'' ''IMG_SWIR'' ?rs'))
      = [calc_error_toast unexpected_format]"
    using run' by blast
  have toast: "calc_error_toast band_not_found
      = \<lparr>title = ''Error performing calculation'', description = JStr ''Band not found'',
         status = Error, duration = 3000, isClosable = True\<rparr>"
    by (simp add: calc_error_toast_def error_detail_def band_not_found_def http_error_def)
  have toast': "calc_error_toast unexpected_format
      = \<lparr>title = ''Error performing calculation'',
         description = JStr ''Manipulation completed but response format is unexpected'',
         status = Error, duration = 3000, isClosable = True\<rparr>"
    by (simp add: calc_error_toast_def error_detail_def unexpected_format_def)
  have state: "run_ctx VisualizationProvider
      (fst (handleCalculate ''ratio'' ''IMG_VIS'' ''IMG_SWIR'' ?rs)) = VisualizationProvider"
    using run by blast
  have state': "run_ctx VisualizationProvider
      (fst (handleCalculate ''difference'' ''IMG_VIS'' ''IMG_SWIR'' ?rs')) = VisualizationProvider"
    using run' by blast
  show ?thesis
    using h1 h2 h3 h3' requests requests' shown shown' toast toast' state state' by simp
qed

text \<open>
  C6, as the code has it. Let the effect of the Display Panel observe a non-empty string
  \<open>s\<close> as shared reference. If \<open>s\<close> starts with \<^verbatim>\<open>blob:\<close>, the effect only sets the
  image URL of the panel to \<open>s\<close>, and no request is issued. Otherwise the effect
  issues exactly one request, a GET of \<open>s\<close> against the backend with a binary response
  type; whenever a request of \<^verbatim>\<open>loadImageFromApi\<close> that is in flight resolves with a
  body \<open>b\<close>, the \<^verbatim>\<open>blob:\<close> URL made from \<open>b\<close> becomes the image URL of the panel
  and the loading flag is cleared. The panel shows its image URL when it is neither
  loading nor holding an error message: a \<^verbatim>\<open>blob:\<close> reference in such a panel, a
  fetched image when no error message is held as its request resolves, and so always
  when the request resolves with no other event of the panel since it was issued.
\<close>

theorem visualization_effect_reference:
  assumes "s \<noteq> []"
  shows "(prefix ''blob:'' s \<longrightarrow>
            visualization_effect (JStr s) = ([SetImageUrl s], Inr ())
          \<and> vis_step cfg (UrlChanged (JStr s))
              = Some \<lparr>panel = (panel cfg)\<lparr>imageUrl := s\<rparr>, inflight = inflight cfg\<rparr>
          \<and> (\<not> loading (panel cfg) \<and> error (panel cfg) = [] \<longrightarrow>
                render ((panel cfg)\<lparr>imageUrl := s\<rparr>) = Image s))
       \<and> (\<not> prefix ''blob:'' s \<longrightarrow>
            filter is_request (fst (visualization_effect (JStr s)))
              = [Request GET (api @ s) None AsBlob]
          \<and> vis_step cfg (UrlChanged (JStr s))
              = Some \<lparr>panel = (panel cfg)\<lparr>loading := True, error := []\<rparr>,
                      inflight = inflight cfg @ [(LoadImageFromApi, api @ s)]\<rparr>
          \<and> (\<forall>b. vis_step \<lparr>panel = (panel cfg)\<lparr>loading := True, error := []\<rparr>,
                             inflight = inflight cfg @ [(LoadImageFromApi, api @ s)]\<rparr>
                     (Settled (length (inflight cfg)) (Resolved b))
                  = Some \<lparr>panel = \<lparr>imageUrl = createObjectURL b, loading = False, error = []\<rparr>,
                          inflight = inflight cfg\<rparr>
                \<and> prefix ''blob:'' (createObjectURL b)
                \<and> render \<lparr>imageUrl = createObjectURL b, loading = False, error = []\<rparr>
                    = Image (createObjectURL b)))
       \<and> (\<forall>later i b. i < length (inflight later)
               \<and> fst (inflight later ! i) = LoadImageFromApi \<longrightarrow>
             vis_step later (Settled i (Resolved b))
               = Some \<lparr>panel = (panel later)\<lparr>imageUrl := createObjectURL b, loading := False\<rparr>,
                       inflight = take i (inflight later) @ drop (Suc i) (inflight later)\<rparr>
           \<and> (error (panel later) = [] \<longrightarrow>
                 render ((panel later)\<lparr>imageUrl := createObjectURL b, loading := False\<rparr>)
                   = Image (createObjectURL b)))"
proof -
  have direct: "visualization_effect (JStr s) = ([SetImageUrl s], Inr ())"
    if "prefix ''blob:'' s"
    using that assms by (simp add: visualization_effect_def proc_defs)
  have fetch: "visualization_effect (JStr s) = (loadImageFromApi_begin s, Inr ())"
    if "\<not> prefix ''blob:'' s"
    using that assms by (simp add: visualization_effect_def proc_defs)
  have shown: "render \<lparr>imageUrl = createObjectURL b, loading = False, error = []\<rparr>
      = Image (createObjectURL b)" for b
    by (simp add: render_def createObjectURL_nonempty)
  have settle: "vis_step \<lparr>panel = (panel cfg)\<lparr>loading := True, error := []\<rparr>,
                             inflight = inflight cfg @ [(LoadImageFromApi, api @ s)]\<rparr>
                     (Settled (length (inflight cfg)) (Resolved b))
                  = Some \<lparr>panel = \<lparr>imageUrl = createObjectURL b, loading = False, error = []\<rparr>,
                          inflight = inflight cfg\<rparr>" for b
    by (simp add: loadImageFromApi_resume_def run_panel_def)
  have handle: "prefix ''blob:'' s \<longrightarrow>
            visualization_effect (JStr s) = ([SetImageUrl s], Inr ())
          \<and> vis_step cfg (UrlChanged (JStr s))
              = Some \<lparr>panel = (panel cfg)\<lparr>imageUrl := s\<rparr>, inflight = inflight cfg\<rparr>
          \<and> (\<not> loading (panel cfg) \<and> error (panel cfg) = [] \<longrightarrow>
                render ((panel cfg)\<lparr>imageUrl := s\<rparr>) = Image s)"
    using direct assms by (auto simp add: run_panel_def render_def)
  have remote: "\<not> prefix ''blob:'' s \<longrightarrow>
            filter is_request (fst (visualization_effect (JStr s)))
              = [Request GET (api @ s) None AsBlob]
          \<and> vis_step cfg (UrlChanged (JStr s))
              = Some \<lparr>panel = (panel cfg)\<lparr>loading := True, error := []\<rparr>,
                      inflight = inflight cfg @ [(LoadImageFromApi, api @ s)]\<rparr>
          \<and> (\<forall>b. vis_step \<lparr>panel = (panel cfg)\<lparr>loading := True, error := []\<rparr>,
                             inflight = inflight cfg @ [(LoadImageFromApi, api @ s)]\<rparr>
                     (Settled (length (inflight cfg)) (Resolved b))
                  = Some \<lparr>panel = \<lparr>imageUrl = createObjectURL b, loading = False, error = []\<rparr>,
                          inflight = inflight cfg\<rparr>
                \<and> prefix ''blob:'' (createObjectURL b)
                \<and> render \<lparr>imageUrl = createObjectURL b, loading = False, error = []\<rparr>
                    = Image (createObjectURL b))"
    using fetch shown settle
    by (auto simp add: run_panel_def loadImageFromApi_begin_def createObjectURL_blob)
  have resolved: "\<forall>later i b. i < length (inflight later)
               \<and> fst (inflight later ! i) = LoadImageFromApi \<longrightarrow>
             vis_step later (Settled i (Resolved b))
               = Some \<lparr>panel = (panel later)\<lparr>imageUrl := createObjectURL b, loading := False\<rparr>,
                       inflight = take i (inflight later) @ drop (Suc i) (inflight later)\<rparr>
           \<and> (error (panel later) = [] \<longrightarrow>
                 render ((panel later)\<lparr>imageUrl := createObjectURL b, loading := False\<rparr>)
                   = Image (createObjectURL b))"
    by (simp add: loadImageFromApi_resume_def run_panel_def render_def createObjectURL_nonempty)
  show ?thesis
    by (rule conjI [OF handle conjI [OF remote resolved]])
qed

theorem visualization_effect_reference_witness:
  "''/api/visualize/IMG_VIS'' \<noteq> [] \<and> \<not> prefix ''blob:'' ''/api/visualize/IMG_VIS''
   \<and> filter is_request (fst (visualization_effect (JStr ''/api/visualize/IMG_VIS'')))
       = [Request GET ''http://localhost:8000/api/visualize/IMG_VIS'' None AsBlob]
   \<and> vis_run \<lparr>panel = Visualization, inflight = []\<rparr>
        [UrlChanged (JStr ''/api/visualize/IMG_VIS''), Settled 0 (Resolved (Blob ''1''))]
       = Some \<lparr>panel = \<lparr>imageUrl = ''blob:1'', loading = False, error = []\<rparr>, inflight = []\<rparr>
   \<and> ''blob:1'' \<noteq> [] \<and> prefix ''blob:'' ''blob:1''
   \<and> filter is_request (fst (visualization_effect (JStr ''blob:1''))) = []
   \<and> vis_run \<lparr>panel = Visualization, inflight = []\<rparr> [UrlChanged (JStr ''blob:1'')]
       = Some \<lparr>panel = \<lparr>imageUrl = ''blob:1'', loading = False, error = []\<rparr>, inflight = []\<rparr>
   \<and> render \<lparr>imageUrl = ''blob:1'', loading = False, error = []\<rparr> = Image ''blob:1''"
proof -
  have h: "''/api/visualize/IMG_VIS'' \<noteq> []" and n: "\<not> prefix ''blob:'' ''/api/visualize/IMG_VIS''"
    by simp_all
  have h': "''blob:1'' \<noteq> []" and p: "prefix ''blob:'' ''blob:1''"
    by simp_all
  note fetched =
    visualization_effect_reference [OF h, of "\<lparr>panel = Visualization, inflight = []\<rparr>"]
  note direct =
    visualization_effect_reference [OF h', of "\<lparr>panel = Visualization, inflight = []\<rparr>"]
  have remote: "filter is_request (fst (visualization_effect (JStr ''/api/visualize/IMG_VIS'')))
       = [Request GET ''http://localhost:8000/api/visualize/IMG_VIS'' None AsBlob]
     \<and> vis_run \<lparr>panel = Visualization, inflight = []\<rparr>
        [UrlChanged (JStr ''/api/visualize/IMG_VIS''), Settled 0 (Resolved (Blob ''1''))]
       = Some \<lparr>panel = \<lparr>imageUrl = ''blob:1'', loading = False, error = []\<rparr>, inflight = []\<rparr>"
    using h n fetched by (simp add: api_def Visualization_def)
  have handle: "filter is_request (fst (visualization_effect (JStr ''blob:1''))) = []
     \<and> vis_run \<lparr>panel = Visualization, inflight = []\<rparr> [UrlChanged (JStr ''blob:1'')]
       = Some \<lparr>panel = \<lparr>imageUrl = ''blob:1'', loading = False, error = []\<rparr>, inflight = []\<rparr>
     \<and> render \<lparr>imageUrl = ''blob:1'', loading = False, error = []\<rparr> = Image ''blob:1''"
    using h' p direct by (simp add: Visualization_def run_panel_def)
  show ?thesis
    using h n h' p remote handle by simp
qed

text \<open>
  C6 as stated has every observed reference end up on the screen. With the fetches for
  \<^verbatim>\<open>/x\<close> and \<^verbatim>\<open>/y\<close> both in flight, the fetch for \<^verbatim>\<open>/x\<close> is rejected and the fetch
  for \<^verbatim>\<open>/y\<close> then resolves: the image of \<^verbatim>\<open>/y\<close> is the image URL of the panel, and
  the panel shows the error text. And a \<^verbatim>\<open>blob:\<close> reference that arrives while the
  fetch for \<^verbatim>\<open>/x\<close> is in flight is behind the spinner, and is replaced by the image
  of \<^verbatim>\<open>/x\<close> when that fetch resolves.
\<close>

theorem visualization_effect_reference_counterexample:
  "vis_run \<lparr>panel = Visualization, inflight = []\<rparr>
      [UrlChanged (JStr ''/x''), UrlChanged (JStr ''/y''),
       Settled 0 (Rejected network_error), Settled 0 (Resolved (Blob ''image of y''))]
     = Some \<lparr>panel = \<lparr>imageUrl = ''blob:image of y'', loading = False,
                        error = ''Error loading visualization''\<rparr>, inflight = []\<rparr>
   \<and> render \<lparr>imageUrl = ''blob:image of y'', loading = False,
              error = ''Error loading visualization''\<rparr>
       = ErrorText ''Error loading visualization''
   \<and> vis_run \<lparr>panel = Visualization, inflight = []\<rparr>
      [UrlChanged (JStr ''/x''), UrlChanged (JStr ''blob:2'')]
     = Some \<lparr>panel = \<lparr>imageUrl = ''blob:2'', loading = True, error = []\<rparr>,
             inflight = [(LoadImageFromApi, ''http://localhost:8000/x'')]\<rparr>
   \<and> render \<lparr>imageUrl = ''blob:2'', loading = True, error = []\<rparr> = Spinner
   \<and> vis_run \<lparr>panel = Visualization, inflight = []\<rparr>
      [UrlChanged (JStr ''/x''), UrlChanged (JStr ''blob:2''),
       Settled 0 (Resolved (Blob ''image of x''))]
     = Some \<lparr>panel = \<lparr>imageUrl = ''blob:image of x'', loading = False, error = []\<rparr>,
             inflight = []\<rparr>"
  by (simp add: visualization_effect_def proc_defs run_panel_def loadImageFromApi_begin_def
      loadImageFromApi_resume_def Visualization_def render_def api_def network_error_def)

text \<open>
  C7, as the code has it. The shared reference goes from empty to \<^verbatim>\<open>/x\<close> and then to
  \<^verbatim>\<open>/y\<close> before the fetch for \<^verbatim>\<open>/x\<close> has settled, so both fetches are in flight.
  Once both have resolved, the panel shows the image of the fetch that resolved last:
  the image of \<^verbatim>\<open>/y\<close> when \<^verbatim>\<open>/x\<close> resolved first, the image of \<^verbatim>\<open>/x\<close> when
  \<^verbatim>\<open>/y\<close> resolved first.
\<close>

theorem last_fetch_wins:
  "vis_run \<lparr>panel = Visualization, inflight = []\<rparr>
      [UrlChanged (JStr ''/x''), UrlChanged (JStr ''/y'')]
     = Some \<lparr>panel = \<lparr>imageUrl = [], loading = True, error = []\<rparr>,
             inflight = [(LoadImageFromApi, api @ ''/x''), (LoadImageFromApi, api @ ''/y'')]\<rparr>
   \<and> vis_run \<lparr>panel = Visualization, inflight = []\<rparr>
      [UrlChanged (JStr ''/x''), UrlChanged (JStr ''/y''),
       Settled 0 (Resolved image_x), Settled 0 (Resolved image_y)]
     = Some \<lparr>panel = \<lparr>imageUrl = createObjectURL image_y, loading = False, error = []\<rparr>,
             inflight = []\<rparr>
   \<and> vis_run \<lparr>panel = Visualization, inflight = []\<rparr>
      [UrlChanged (JStr ''/x''), UrlChanged (JStr ''/y''),
       Settled 1 (Resolved image_y), Settled 0 (Resolved image_x)]
     = Some \<lparr>panel = \<lparr>imageUrl = createObjectURL image_x, loading = False, error = []\<rparr>,
             inflight = []\<rparr>
   \<and> render \<lparr>imageUrl = createObjectURL image_x, loading = False, error = []\<rparr>
     = Image (createObjectURL image_x)
   \<and> render \<lparr>imageUrl = createObjectURL image_y, loading = False, error = []\<rparr>
     = Image (createObjectURL image_y)"
  by (simp add: visualization_effect_def proc_defs run_panel_def loadImageFromApi_begin_def
      loadImageFromApi_resume_def Visualization_def render_def createObjectURL_nonempty)

text \<open>
  C7 as stated asks for the image of \<^verbatim>\<open>/y\<close> in both orders: when the fetch for
  \<^verbatim>\<open>/y\<close> resolves first and the fetch for \<^verbatim>\<open>/x\<close> after it, the panel ends up
  showing the image of \<^verbatim>\<open>/x\<close>.
\<close>

theorem stale_fetch_counterexample:
  "vis_run \<lparr>panel = Visualization, inflight = []\<rparr>
      [UrlChanged (JStr ''/x''), UrlChanged (JStr ''/y'')]
     = Some \<lparr>panel = \<lparr>imageUrl = [], loading = True, error = []\<rparr>,
             inflight = [(LoadImageFromApi, ''http://localhost:8000/x''),
                         (LoadImageFromApi, ''http://localhost:8000/y'')]\<rparr>
   \<and> vis_run \<lparr>panel = Visualization, inflight = []\<rparr>
      [UrlChanged (JStr ''/x''), UrlChanged (JStr ''/y''),
       Settled 1 (Resolved (Blob ''image of y'')), Settled 0 (Resolved (Blob ''image of x''))]
     = Some \<lparr>panel = \<lparr>imageUrl = ''blob:image of x'', loading = False, error = []\<rparr>,
             inflight = []\<rparr>
   \<and> render \<lparr>imageUrl = ''blob:image of x'', loading = False, error = []\<rparr>
       = Image (createObjectURL (Blob ''image of x''))
   \<and> createObjectURL (Blob ''image of x'') \<noteq> createObjectURL (Blob ''image of y'')"
  by (simp add: visualization_effect_def proc_defs run_panel_def loadImageFromApi_begin_def
      loadImageFromApi_resume_def Visualization_def render_def api_def)

text \<open>
  C8, as the code has it. When the catalog request of \<^verbatim>\<open>fetchBands\<close> is rejected, the
  run is that one request followed by one toast of status error, titled ``Error
  fetching bands'': no second request is issued, and the band mapping of the panel is
  still the empty object.
\<close>

theorem fetchBands_failed:
  "fst (fetchBands (Rejected e))
     = [Request GET (api @ ''/api/bands'') None AsJson, Await,
        Toast \<lparr>title = ''Error fetching bands'', description = JUndefined,
               status = Error, duration = 3000, isClosable = True\<rparr>]
   \<and> map status (toasts (fst (fetchBands (Rejected e)))) = [Error]
   \<and> length (filter is_request (fst (fetchBands (Rejected e)))) = 1
   \<and> bands (run_bands SpectralBands (fst (fetchBands (Rejected e)))) = JObj []"
  by (simp add: fetchBands_def proc_defs run_bands_def SpectralBands_def catalog_request_def)

text \<open>
  C8 as stated asks for a warning: a rejected catalog request produces no toast of
  status warning.
\<close>

theorem fetchBands_failed_counterexample:
  "filter (\<lambda>t. status t = Warning) (toasts (fst (fetchBands (Rejected network_error)))) = []"
  by (simp add: fetchBands_def proc_defs catalog_request_def)

text \<open>
  C9 at a response \<^verbatim>\<open>{status: "success", data: {}}\<close>, whose payload has no
  \<^verbatim>\<open>visualization\<close> field: nothing is thrown, \<^verbatim>\<open>undefined\<close> is written as the shared
  reference with kind \<^verbatim>\<open>manipulation\<close>, and the only toast reports success.
\<close>

theorem handleCalculate_missing_visualization:
  "handleCalculate ''ratio'' ''IMG_VIS'' ''IMG_SWIR'' (backend (Resolved (success_body (JObj []))))
     = ([SetLoading True,
         convert_request ''IMG_VIS'', Await, convert_request ''IMG_SWIR'', Await,
         catalog_request, Await, manipulate_request ''ratio'' ''IMG_VIS'' ''IMG_SWIR'', Await,
         SetVisualizationUrl JUndefined, SetVisualizationType Manipulation,
         Toast completed_toast, SetLoading False], Inr ())
   \<and> run_ctx VisualizationProvider
        (fst (handleCalculate ''ratio'' ''IMG_VIS'' ''IMG_SWIR''
           (backend (Resolved (success_body (JObj []))))))
       = \<lparr>visualizationUrl = JUndefined, visualizationType = Manipulation, selectedBand = []\<rparr>
   \<and> map status (toasts (fst (handleCalculate ''ratio'' ''IMG_VIS'' ''IMG_SWIR''
           (backend (Resolved (success_body (JObj []))))))) = [Success]"
  by (simp add: handleCalculate_def handleCalculate_try_def proc_defs sample_defs run_ctx_def
      VisualizationProvider_def request_defs completed_toast_def)

text \<open>
  C10. Once the image URL of the Display Panel is non-empty, it stays non-empty through
  every sequence of events of the panel (the effect firing with any shared reference,
  a call of \<^verbatim>\<open>loadVisualization\<close>, a request settling either way), so the panel never
  shows the empty prompt again; and the effect firing with the empty string as shared
  reference leaves the panel as it is.
\<close>

theorem image_never_reset:
  assumes "imageUrl (panel cfg) \<noteq> []" and "vis_run cfg evs = Some cfg'"
  shows "imageUrl (panel cfg') \<noteq> [] \<and> render (panel cfg') \<noteq> Prompt
       \<and> vis_step cfg' (UrlChanged (JStr [])) = Some cfg'"
proof -
  have "imageUrl (panel cfg') \<noteq> []"
    using assms
  proof (induction evs arbitrary: cfg)
    case Nil
    then show ?case by simp
  next
    case (Cons ev evs)
    then obtain cfg1 where s: "vis_step cfg ev = Some cfg1" and r: "vis_run cfg1 evs = Some cfg'"
      by (auto split: option.splits)
    show ?case
      using Cons.IH [OF vis_step_keeps_image [OF Cons.prems(1) s] r] .
  qed
  then show ?thesis
    by (simp add: render_def visualization_effect_def proc_defs run_panel_def)
qed

theorem image_never_reset_witness:
  "imageUrl (panel \<lparr>panel = \<lparr>imageUrl = ''blob:1'', loading = False, error = []\<rparr>,
                    inflight = []\<rparr>) \<noteq> []
   \<and> vis_run \<lparr>panel = \<lparr>imageUrl = ''blob:1'', loading = False, error = []\<rparr>, inflight = []\<rparr>
        [UrlChanged (JStr []), UrlChanged (JStr ''/api/visualize/IMG_VIS''),
         Settled 0 (Rejected network_error)]
       = Some \<lparr>panel = \<lparr>imageUrl = ''blob:1'', loading = False,
                          error = ''Error loading visualization''\<rparr>, inflight = []\<rparr>
   \<and> render \<lparr>imageUrl = ''blob:1'', loading = False, error = ''Error loading visualization''\<rparr>
       \<noteq> Prompt"
proof -
  let ?cfg = "\<lparr>panel = \<lparr>imageUrl = ''blob:1'', loading = False, error = []\<rparr>, inflight = []\<rparr>"
  have h1: "imageUrl (panel ?cfg) \<noteq> []"
    by simp
  have h2: "vis_run ?cfg [UrlChanged (JStr []), UrlChanged (JStr ''/api/visualize/IMG_VIS''),
         Settled 0 (Rejected network_error)]
       = Some \<lparr>panel = \<lparr>imageUrl = ''blob:1'', loading = False,
                          error = ''Error loading visualization''\<rparr>, inflight = []\<rparr>"
    by (simp add: visualization_effect_def proc_defs run_panel_def loadImageFromApi_begin_def
        loadImageFromApi_resume_def)
  show ?thesis
    using h1 h2 image_never_reset [OF h1 h2] by simp
qed

end
